theory Spec2Isabelle
  imports Main "HOL-Library.Word" "HOL-Library.Signed_Division"
begin

section \<open>Go values used by the video backend\<close>

text \<open>
  Go's \<open>int\<close> is modelled as a 64-bit two's-complement word (the size it has on the 64-bit
  platforms the server is built for): \<open>*\<close> wraps around, and \<open>/\<close> truncates towards zero.
  Go's \<open>error\<close> values are modelled by their messages, Go strings by \<open>string\<close>.
\<close>

type_synonym go_int = "64 word"
type_synonym error = string
type_synonym uuid = string

definition go_quo :: "go_int \<Rightarrow> go_int \<Rightarrow> go_int" where
  \<comment> \<open>Go's \<open>a / b\<close> on \<open>int\<close>: the quotient truncated towards zero.\<close>
  "go_quo a b = word_of_int (sint a sdiv sint b)"

section \<open>handler_upload_thumbnail.go: the form-parsing budget\<close>

text \<open>
  \<open>const maxMemory int64 = 10 >> 20\<close>. The constant expression is evaluated exactly and then
  given the type \<open>int64\<close>; \<open>>>\<close> is the right shift.
\<close>

definition maxMemory :: "64 word" where
  "maxMemory = word_of_int (drop_bit 20 (10::int))"

section \<open>Asset helpers\<close>

text \<open>
  \<open>strings.Split(s, sep)\<close> for a separator of one byte, which is what both call sites pass
  (\<open>"/"\<close> and \<open>","\<close>): the pieces of \<open>s\<close> between the separators, one more piece than there
  are separators, so the result is never empty.
\<close>

fun Split :: "string \<Rightarrow> char \<Rightarrow> string list" where
  "Split [] sep = [[]]"
| "Split (c # cs) sep =
     (if c = sep then [] # Split cs sep
      else (case Split cs sep of
              [] \<Rightarrow> [[c]]
            | p # ps \<Rightarrow> (c # p) # ps))"

definition mediaTypeToExtension :: "string \<Rightarrow> string" where
  "mediaTypeToExtension mediaType =
     (let parts = Split mediaType CHR ''/'' in
      if length parts \<noteq> 2 then ''.bin'' else ''.'' @ parts ! 1)"

definition calculateAspectRatio :: "go_int \<Rightarrow> go_int \<Rightarrow> string" where
  "calculateAspectRatio width height =
     (if width = go_quo (16 * height) 9 then ''landscape''
      else if height = go_quo (16 * width) 9 then ''portrait''
      else ''other'')"

section \<open>Presigned URLs\<close>

text \<open>
  Modelled from the spec: the record \<open>database.Video\<close> is declared outside the files at
  hand (the spec's VideoRecord, owned by the database collaborator, with its \<open>VideoURL\<close>
  field); the fields below are the ones the handlers read or write. Functions are stated
  on the extensible record, so every further field of the real struct is carried along
  in the \<open>more\<close> part.
\<close>

record Video =
  ID :: uuid
  UserID :: uuid
  ThumbnailURL :: "string option"
  VideoURL :: "string option"

text \<open>
  The signing client of the object-store SDK is a collaborator, taken as a parameter:
  bucket, key and expiry (in nanoseconds, as \<open>time.Duration\<close>) to a URL or an error.
\<close>

type_synonym presigner = "string \<Rightarrow> string \<Rightarrow> nat \<Rightarrow> error + string"

definition Minute :: nat where
  "Minute = 60 * 1000000000"

definition generatePresignedURL :: "presigner \<Rightarrow> string \<Rightarrow> string \<Rightarrow> nat \<Rightarrow> error + string" where
  "generatePresignedURL PresignGetObject bucket key expireTime =
     (case PresignGetObject bucket key expireTime of
        Inl err \<Rightarrow> Inl (''couldn't create presign URL '' @ err)
      | Inr url \<Rightarrow> Inr url)"

text \<open>Go returns the pair \<open>(database.Video, error)\<close>; \<open>None\<close> is the \<open>nil\<close> error.\<close>

definition dbVideoToSignedVideo ::
  "presigner \<Rightarrow> 'a Video_scheme \<Rightarrow> 'a Video_scheme \<times> error option" where
  "dbVideoToSignedVideo s3Client video =
     (case VideoURL video of
        None \<Rightarrow> (video, None)
      | Some url \<Rightarrow>
          (let urlParts = Split url CHR '','' in
           if length urlParts < 2 then (video, None)
           else
             (let bucket = urlParts ! 0;
                  key = urlParts ! 1
              in case generatePresignedURL s3Client bucket key (10 * Minute) of
                   Inl err \<Rightarrow> (video, Some err)
                 | Inr presignedURL \<Rightarrow> (video\<lparr>VideoURL := Some presignedURL\<rparr>, None))))"

section \<open>The transcoder and the classifier\<close>

text \<open>
  The disk is a map from paths to file contents. The external tools are collaborators,
  taken as parameters: \<open>ffmpeg\<close> receives the input path, the output path and the disk, and
  gives back its standard error, the error of \<open>cmd.Run\<close> (\<open>None\<close> when the tool exits with
  status zero) and the disk it leaves behind; \<open>ffprobe\<close> gives its standard output, its
  standard error and the error of \<open>cmd.Run\<close>.
\<close>

type_synonym disk = "string \<rightharpoonup> string"
type_synonym ffmpeg_tool = "string \<Rightarrow> string \<Rightarrow> disk \<Rightarrow> (string \<times> error option) \<times> disk"
type_synonym ffprobe_tool = "string \<Rightarrow> disk \<Rightarrow> string \<times> string \<times> error option"
type_synonym unmarshal = "string \<Rightarrow> error + (go_int \<times> go_int) list"

definition os_Stat :: "disk \<Rightarrow> string \<Rightarrow> error + nat" where
  \<comment> \<open>the size of the file, or an error when there is no file to stat\<close>
  "os_Stat d path =
     (case d path of
        None \<Rightarrow> Inl (''stat '' @ path @ '': no such file or directory'')
      | Some content \<Rightarrow> Inr (length content))"

definition processVideoForFastStart ::
  "ffmpeg_tool \<Rightarrow> string \<Rightarrow> disk \<Rightarrow> (error + string) \<times> disk" where
  "processVideoForFastStart ffmpeg inputFilePath d =
     (let faststartPath = inputFilePath @ ''.processing'' in
      case ffmpeg inputFilePath faststartPath d of
        ((stderr, Some err), d') \<Rightarrow>
          (Inl (''ffmpeg error: '' @ stderr @ [CHR 0x0A] @ ''Command failed with: '' @ err), d')
      | ((stderr, None), d') \<Rightarrow>
          (case os_Stat d' faststartPath of
             Inl err \<Rightarrow> (Inl (''couldn't stat processed file: '' @ err), d')
           | Inr fileSize \<Rightarrow>
               if fileSize = 0 then (Inl ''processed file is empty'', d')
               else (Inr faststartPath, d')))"

definition getVideoAspectRatio ::
  "ffprobe_tool \<Rightarrow> unmarshal \<Rightarrow> string \<Rightarrow> disk \<Rightarrow> error + string" where
  "getVideoAspectRatio ffprobe json_Unmarshal filePath d =
     (case ffprobe filePath d of
        (stdout, stderr, Some err) \<Rightarrow>
          Inl (''ffprobe error: '' @ stderr @ [CHR 0x0A] @ ''Command failed with: '' @ err)
      | (stdout, stderr, None) \<Rightarrow>
          (case json_Unmarshal stdout of
             Inl err \<Rightarrow> Inl (''couldn't parse ffprobe output: '' @ err)
           | Inr streams \<Rightarrow>
               (case streams of
                  [] \<Rightarrow> Inl ''no video streams found''
                | (width, height) # _ \<Rightarrow> Inr (calculateAspectRatio width height))))"

text \<open>
  \<open>generateRandomNameWithExtensionType\<close>: the argument is the URL-safe base64 text of the 32
  random bytes, or \<open>None\<close> when the random source fails; the function panics then, which
  is the result \<open>None\<close>.
\<close>

definition generateRandomNameWithExtensionType :: "string option \<Rightarrow> string \<Rightarrow> string option" where
  "generateRandomNameWithExtensionType rand_id mediaType =
     (case rand_id of
        None \<Rightarrow> None
      | Some name \<Rightarrow> Some (name @ mediaTypeToExtension mediaType))"

section \<open>handler_upload_video.go\<close>

record apiConfig =
  jwtSecret :: string
  s3Bucket :: string
  s3Region :: string
  port :: string
  assetsRoot :: string

definition getObjectURL :: "apiConfig \<Rightarrow> string \<Rightarrow> string" where
  "getObjectURL cfg key =
     ''https://'' @ s3Bucket cfg @ ''.s3.'' @ s3Region cfg @ ''.amazonaws.com/'' @ key"

definition filepath_Join :: "string \<Rightarrow> string \<Rightarrow> string" where
  \<comment> \<open>\<open>filepath.Join\<close> on two non-empty elements without separators or dot elements, where
      cleaning the joined path changes nothing: the aspect bucket and the random name\<close>
  "filepath_Join dir name = dir @ ''/'' @ name"

text \<open>
  What a request does to the world is kept as state: the disk, the object store, the
  video table, and the history of the effects in the order in which they happen.
\<close>

datatype payload = ErrorBody string | VideoBody Video

datatype event =
    Responded nat payload
  | TempCreated string
  | Transcoded string string
  | Classified string
  | PutObject string string string
  | UpdatedVideo Video
  | Removed string
  | Panicked string

record world =
  files :: disk
  objects :: "(string \<times> string) \<rightharpoonup> (string option \<times> string)"
  videos :: "uuid \<rightharpoonup> Video"
  events :: "event list"

text \<open>
  The collaborators of one request, each with the outcome it has for this request:
  the UUID parser, the two functions of the \<open>auth\<close> package, the MIME parser, the calls
  of the \<open>os\<close> and \<open>io\<close> packages, the two tools, the JSON decoder, the random source,
  the object store and the database update.
\<close>

record collaborators =
  uuid_Parse :: "string \<Rightarrow> error + uuid"
  GetBearerToken :: "(string \<times> string) list \<Rightarrow> string \<times> error option"
  ValidateJWT :: "string \<Rightarrow> string \<Rightarrow> error + uuid"
  ParseMediaType :: "string \<Rightarrow> error + string"
  CreateTemp :: "error + string"
  Copy_fails :: "error option"
  Seek_fails :: "error option"
  ffmpeg :: ffmpeg_tool
  Open_fails :: "error option"
  ffprobe :: ffprobe_tool
  json_Unmarshal :: unmarshal
  rand_Read :: "string option"
  PutObject_fails :: "error option"
  UpdateVideo_fails :: "error option"

record request =
  videoIDString :: string
  Header :: "(string \<times> string) list"
  FormFile_video :: "error + string \<times> string"

definition emit :: "event \<Rightarrow> world \<Rightarrow> world" where
  "emit e w = w\<lparr>events := events w @ [e]\<rparr>"

text \<open>
  Modelled from the spec: the two response helpers are defined outside the files at hand;
  they send an HTTP status with an error body that carries the message, or with the JSON
  of the video. The cause passed to \<open>respondWithError\<close> is only logged and is left out.
\<close>

definition respondWithError :: "nat \<Rightarrow> string \<Rightarrow> world \<Rightarrow> world" where
  "respondWithError code msg w = emit (Responded code (ErrorBody msg)) w"

definition respondWithJSON :: "nat \<Rightarrow> Video \<Rightarrow> world \<Rightarrow> world" where
  "respondWithJSON code video w = emit (Responded code (VideoBody video)) w"

definition os_Remove :: "string \<Rightarrow> world \<Rightarrow> world" where
  "os_Remove path w = emit (Removed path) (w\<lparr>files := (files w)(path := None)\<rparr>)"

definition os_Open :: "collaborators \<Rightarrow> world \<Rightarrow> string \<Rightarrow> error + string" where
  "os_Open env w path =
     (case Open_fails env of
        Some err \<Rightarrow> Inl err
      | None \<Rightarrow>
          (case files w path of
             None \<Rightarrow> Inl (''open '' @ path @ '': no such file or directory'')
           | Some content \<Rightarrow> Inr content))"

text \<open>
  Modelled from the spec: the database collaborator is outside the files at hand; reading
  a video is a lookup in the video table, which fails when there is no such record.
\<close>

definition GetVideo :: "world \<Rightarrow> uuid \<Rightarrow> error + Video" where
  "GetVideo w videoID =
     (case videos w videoID of
        None \<Rightarrow> Inl ''sql: no rows in result set''
      | Some video \<Rightarrow> Inr video)"

text \<open>
  \<open>handlerUploadVideo\<close> is written in three parts, one for each deferred deletion: the
  part that runs while the transcoded file is registered for deletion, the part that runs
  while the staged file is, and the handler that validates the request and stages the
  upload. A deferred call is applied to whatever world its part returns, so it runs on
  every way out of that part, and on no way out that comes before its \<open>defer\<close> statement.
  An error branch of the source that has no \<open>return\<close> responds and then goes on.
  The limit of 1 GiB that \<open>http.MaxBytesReader\<close> puts on the body shows as an error of
  \<open>FormFile\<close>; closing a file changes nothing that is modelled.
\<close>

definition handlerUploadVideo_transcoded ::
  "apiConfig \<Rightarrow> collaborators \<Rightarrow> Video \<Rightarrow> string \<Rightarrow> string \<Rightarrow> string \<Rightarrow> world \<Rightarrow> world" where
  "handlerUploadVideo_transcoded cfg env video mediaType tempVidFile processedFilePath w =
     (let (fastEncodedVid, w1) =
            (case os_Open env w processedFilePath of
               Inl err \<Rightarrow> (None, respondWithError 500 ''Couldn't open encoded file'' w)
             | Inr content \<Rightarrow> (Some content, w))
      in case getVideoAspectRatio (ffprobe env) (json_Unmarshal env) tempVidFile (files w1) of
           Inl err \<Rightarrow> respondWithError 500 ''Couldn't handle aspect ratio'' w1
         | Inr aspectRatio \<Rightarrow>
             (let w2 = emit (Classified aspectRatio) w1 in
              case generateRandomNameWithExtensionType (rand_Read env) mediaType of
                None \<Rightarrow> emit (Panicked ''failed to generate random bytes'') w2
              | Some name \<Rightarrow>
                  (let key = filepath_Join aspectRatio name;
                       w3 = emit (PutObject (s3Bucket cfg) key mediaType) w2
                   in case PutObject_fails env of
                        Some err \<Rightarrow> respondWithError 500 ''Issue uploading video to S3'' w3
                      | None \<Rightarrow>
                          (let w4 = w3\<lparr>objects :=
                                      (objects w3)((s3Bucket cfg, key) \<mapsto> (fastEncodedVid, mediaType))\<rparr>;
                               url = getObjectURL cfg key;
                               video' = video\<lparr>VideoURL := Some url\<rparr>
                           in case UpdateVideo_fails env of
                                Some err \<Rightarrow>
                                  respondWithError 500 ''Couldn't update video information'' w4
                              | None \<Rightarrow>
                                  respondWithJSON 200 video'
                                    (emit (UpdatedVideo video')
                                       (w4\<lparr>videos := (videos w4)(ID video' \<mapsto> video')\<rparr>))))))"

definition handlerUploadVideo_staged ::
  "apiConfig \<Rightarrow> collaborators \<Rightarrow> Video \<Rightarrow> string \<Rightarrow> string \<Rightarrow> string \<Rightarrow> world \<Rightarrow> world" where
  "handlerUploadVideo_staged cfg env video mediaType file tempVidFile w =
     (case Copy_fails env of
        Some err \<Rightarrow> respondWithError 500 ''Couldn't write file to disk'' w
      | None \<Rightarrow>
          (let w1 = w\<lparr>files := (files w)(tempVidFile \<mapsto> file)\<rparr> in
           case Seek_fails env of
             Some err \<Rightarrow> respondWithError 500 ''Couldn't reset file pointer'' w1
           | None \<Rightarrow>
               (let (res, d) = processVideoForFastStart (ffmpeg env) tempVidFile (files w1);
                    w2 = emit (Transcoded tempVidFile (tempVidFile @ ''.processing''))
                           (w1\<lparr>files := d\<rparr>)
                in case res of
                     Inl err \<Rightarrow> respondWithError 500 ''Couldn't process video'' w2
                   | Inr processedFilePath \<Rightarrow>
                       os_Remove processedFilePath
                         (handlerUploadVideo_transcoded cfg env video mediaType tempVidFile
                            processedFilePath w2))))"

definition handlerUploadVideo :: "apiConfig \<Rightarrow> collaborators \<Rightarrow> request \<Rightarrow> world \<Rightarrow> world" where
  "handlerUploadVideo cfg env r w =
     (case uuid_Parse env (videoIDString r) of
        Inl err \<Rightarrow> respondWithError 400 ''Invalid ID'' w
      | Inr videoID \<Rightarrow>
          (let (token, err) = GetBearerToken env (Header r);
               w1 = (if err \<noteq> None then respondWithError 401 ''Couldn't find JWT'' w else w)
           in case ValidateJWT env token (jwtSecret cfg) of
                Inl err \<Rightarrow> respondWithError 401 ''Couldn't validate JWT'' w1
              | Inr userID \<Rightarrow>
                  (case GetVideo w1 videoID of
                     Inl err \<Rightarrow> respondWithError 500 ''Couldn't find video'' w1
                   | Inr video \<Rightarrow>
                       (let w2 = (if UserID video \<noteq> userID
                                  then respondWithError 401 ''Not authorized to update video'' w1
                                  else w1)
                        in case FormFile_video r of
                             Inl err \<Rightarrow> respondWithError 400 ''Couldn't parse form file'' w2
                           | Inr (file, contentType) \<Rightarrow>
                               (case ParseMediaType env contentType of
                                  Inl err \<Rightarrow> respondWithError 400 ''Invalid Content-Type'' w2
                                | Inr mediaType \<Rightarrow>
                                    if mediaType \<noteq> ''video/mp4''
                                    then respondWithError 400
                                           ''Invalid media type, only mp4 is supported'' w2
                                    else
                                      (case CreateTemp env of
                                         Inl err \<Rightarrow>
                                           respondWithError 500 ''Issue creating temp file'' w2
                                       | Inr tempVidFile \<Rightarrow>
                                           os_Remove tempVidFile
                                             (handlerUploadVideo_staged cfg env video mediaType file
                                                tempVidFile
                                                (emit (TempCreated tempVidFile)
                                                   (w2\<lparr>files := (files w2)(tempVidFile \<mapsto> [])\<rparr>)))))))))"

section \<open>A concrete request\<close>

text \<open>
  One upload, used to run the handler: the video \<open>v1\<close> belongs to \<open>alice\<close>, every
  collaborator succeeds, the caller is the user the token validates to, and the
  transcoder exits with status zero after writing the given bytes to its output path.
\<close>

definition example_cfg :: apiConfig where
  "example_cfg = \<lparr>jwtSecret = ''secret'', s3Bucket = ''tubely'', s3Region = ''us-east-1'',
                   port = ''8091'', assetsRoot = ''./assets''\<rparr>"

definition example_video :: Video where
  "example_video = \<lparr>ID = ''v1'', UserID = ''alice'', ThumbnailURL = None, VideoURL = None\<rparr>"

definition example_world :: world where
  "example_world = \<lparr>files = Map.empty, objects = Map.empty,
                     videos = [''v1'' \<mapsto> example_video], events = []\<rparr>"

definition example_env :: "uuid \<Rightarrow> string \<Rightarrow> collaborators" where
  "example_env caller transcoded =
     \<lparr>uuid_Parse = Inr,
      GetBearerToken = (\<lambda>header. (''token'', None)),
      ValidateJWT = (\<lambda>token secret. Inr caller),
      ParseMediaType = Inr,
      CreateTemp = Inr ''/tmp/tubely-upload_1.mp4'',
      Copy_fails = None,
      Seek_fails = None,
      ffmpeg = (\<lambda>input out d. (([], None), d(out \<mapsto> transcoded))),
      Open_fails = None,
      ffprobe = (\<lambda>path d. (''{}'', [], None)),
      json_Unmarshal = (\<lambda>stdout. Inr [(1920, 1080)]),
      rand_Read = Some ''abc'',
      PutObject_fails = None,
      UpdateVideo_fails = None\<rparr>"

definition example_request :: request where
  "example_request = \<lparr>videoIDString = ''v1'', Header = [(''Authorization'', ''Bearer token'')],
                       FormFile_video = Inr (''mp4 bytes'', ''video/mp4'')\<rparr>"

definition example_url :: string where
  "example_url = ''https://tubely.s3.us-east-1.amazonaws.com/landscape/abc.mp4''"

section \<open>Facts about the helpers\<close>

lemmas handler_defs =
  handlerUploadVideo_def handlerUploadVideo_staged_def handlerUploadVideo_transcoded_def
  processVideoForFastStart_def getVideoAspectRatio_def generateRandomNameWithExtensionType_def
  mediaTypeToExtension_def calculateAspectRatio_def go_quo_def signed_divide_int_def
  getObjectURL_def filepath_Join_def emit_def respondWithError_def respondWithJSON_def
  os_Remove_def os_Open_def os_Stat_def GetVideo_def
  example_cfg_def example_video_def example_world_def example_env_def example_request_def
  example_url_def Let_def

lemma Split_nonempty: "Split s sep \<noteq> []"
  by (induction s) (auto split: list.splits)

lemma length_Split: "length (Split s sep) = Suc (count_list s sep)"
  by (induction s) (auto split: list.splits simp: Split_nonempty)

lemma Split_no_sep: "sep \<notin> set s \<Longrightarrow> Split s sep = [s]"
  by (induction s) auto

lemma Split_append_sep: "sep \<notin> set a \<Longrightarrow> Split (a @ sep # rest) sep = a # Split rest sep"
  by (induction a) auto

lemma Split_short_iff: "length (Split s sep) < 2 \<longleftrightarrow> sep \<notin> set s"
  by (simp add: length_Split count_list_0_iff)

text \<open>
  For dimensions from 0 up to \<open>2 ^ 59\<close> the product \<open>16 * h\<close> does not wrap and truncation
  is rounding down, so the quotient of the code is the quotient of the integers.
\<close>

lemma sint_mult_16:
  fixes h :: go_int
  assumes "0 \<le> sint h" "sint h < 2 ^ 59"
  shows "sint (16 * h) = 16 * sint h"
  using assms by (simp add: sint_word_ariths signed_take_bit_int_eq_self)

lemma go_quo_16_9:
  fixes h :: go_int
  assumes "0 \<le> sint h" "sint h < 2 ^ 59"
  shows "sint (go_quo (16 * h) 9) = 16 * sint h div 9"
proof -
  have m: "sint (16 * h) = 16 * sint h"
    using assms by (rule sint_mult_16)
  have q: "16 * sint h sdiv 9 = 16 * sint h div 9"
    using assms by (simp add: signed_divide_int_def sgn_if)
  have lo: "0 \<le> 16 * sint h div 9"
    using assms by simp
  have hi: "16 * sint h div 9 < 2 ^ 63"
    using assms by simp
  show ?thesis
    unfolding go_quo_def using lo hi
    by (simp add: m q sint_sbintrunc' signed_take_bit_int_eq_self)
qed

lemma eq_go_quo_iff:
  fixes w h :: go_int
  assumes "0 \<le> sint h" "sint h < 2 ^ 59"
  shows "w = go_quo (16 * h) 9 \<longleftrightarrow> sint w = 16 * sint h div 9"
proof
  assume "w = go_quo (16 * h) 9"
  then show "sint w = 16 * sint h div 9"
    using go_quo_16_9 [OF assms] by simp
next
  assume "sint w = 16 * sint h div 9"
  then have "sint w = sint (go_quo (16 * h) 9)"
    using go_quo_16_9 [OF assms] by simp
  then show "w = go_quo (16 * h) 9"
    by (rule signed_word_eqI)
qed

text \<open>
  On the whole range from \<open>- 2 ^ 59\<close> up to \<open>2 ^ 59\<close> the product does not wrap either, and
  the quotient of the code is the quotient of the integers truncated towards zero.
\<close>

lemma sint_mult_16_signed:
  fixes h :: go_int
  assumes "- (2 ^ 59) \<le> sint h" "sint h < 2 ^ 59"
  shows "sint (16 * h) = 16 * sint h"
  using assms by (simp add: sint_word_ariths signed_take_bit_int_eq_self)

lemma sdiv_9_bounds:
  fixes x :: int
  assumes "- (2 ^ 63) \<le> x" "x < 2 ^ 63"
  shows "- (2 ^ 63) \<le> x sdiv 9 \<and> x sdiv 9 < 2 ^ 63"
proof (cases "0 \<le> x")
  case True
  then have "x sdiv 9 = x div 9"
    by (simp add: signed_divide_int_def sgn_if)
  moreover have "0 \<le> x div 9" "x div 9 \<le> x"
    using True by presburger+
  ultimately show ?thesis using assms by linarith
next
  case False
  then have "x sdiv 9 = - ((- x) div 9)"
    by (simp add: signed_divide_int_def sgn_if)
  moreover have "0 \<le> (- x) div 9" "(- x) div 9 \<le> - x"
    using False by presburger+
  ultimately show ?thesis using assms by linarith
qed

lemma go_quo_16_9_signed:
  fixes h :: go_int
  assumes "- (2 ^ 59) \<le> sint h" "sint h < 2 ^ 59"
  shows "sint (go_quo (16 * h) 9) = 16 * sint h sdiv 9"
proof -
  have m: "sint (16 * h) = 16 * sint h"
    using assms by (rule sint_mult_16_signed)
  have "- (2 ^ 63) \<le> 16 * sint h" "16 * sint h < 2 ^ 63"
    using assms by simp_all
  then have "- (2 ^ 63) \<le> 16 * sint h sdiv 9 \<and> 16 * sint h sdiv 9 < 2 ^ 63"
    by (rule sdiv_9_bounds)
  then show ?thesis
    unfolding go_quo_def
    by (simp add: m sint_sbintrunc' signed_take_bit_int_eq_self)
qed

lemma eq_go_quo_signed_iff:
  fixes w h :: go_int
  assumes "- (2 ^ 59) \<le> sint h" "sint h < 2 ^ 59"
  shows "w = go_quo (16 * h) 9 \<longleftrightarrow> sint w = 16 * sint h sdiv 9"
proof
  assume "w = go_quo (16 * h) 9"
  then show "sint w = 16 * sint h sdiv 9"
    using go_quo_16_9_signed [OF assms] by simp
next
  assume "sint w = 16 * sint h sdiv 9"
  then have "sint w = sint (go_quo (16 * h) 9)"
    using go_quo_16_9_signed [OF assms] by simp
  then show "w = go_quo (16 * h) 9"
    by (rule signed_word_eqI)
qed

lemma eq_div_9_iff: "(w::int) = x div 9 \<longleftrightarrow> 0 \<le> x - 9 * w \<and> x - 9 * w < 9"
  by presburger

lemma getObjectURL_length:
  "length (getObjectURL cfg key) = length (s3Bucket cfg) + length (s3Region cfg) + length key + 27"
  by (simp add: getObjectURL_def)

section \<open>Facts about the handler\<close>

text \<open>
  The path of the staged file is free again on every way out of the handler: the
  deletion deferred right after \<open>os.CreateTemp\<close> covers all the later returns.
\<close>

lemma staged_path_free_after:
  "CreateTemp env = Inr tempVidFile \<Longrightarrow> files w tempVidFile = None
   \<Longrightarrow> files (handlerUploadVideo cfg env r w) tempVidFile = None"
  by (auto simp: handlerUploadVideo_def respondWithError_def emit_def os_Remove_def Let_def
           split: sum.splits prod.splits)

lemma videos_os_Remove: "videos (os_Remove path w) = videos w"
  by (simp add: os_Remove_def emit_def)

lemma videos_respondWithError: "videos (respondWithError code msg w) = videos w"
  by (simp add: respondWithError_def emit_def)

lemma videos_emit: "videos (emit e w) = videos w"
  by (simp add: emit_def)

text \<open>
  Whatever the collaborators do, the handler either leaves the video table as it was or
  writes one record of it back with an object URL in \<open>VideoURL\<close>.
\<close>

lemma transcoded_videos:
  "videos (handlerUploadVideo_transcoded cfg env video mediaType tmp processed w) = videos w
   \<or> (\<exists>key. videos (handlerUploadVideo_transcoded cfg env video mediaType tmp processed w) =
         (videos w)(ID video \<mapsto> video\<lparr>VideoURL := Some (getObjectURL cfg key)\<rparr>))"
  by (auto simp: handlerUploadVideo_transcoded_def respondWithError_def respondWithJSON_def
        emit_def Let_def split: sum.splits prod.splits option.splits)

lemma staged_videos:
  "videos (handlerUploadVideo_staged cfg env video mediaType upload tmp w) = videos w
   \<or> (\<exists>key. videos (handlerUploadVideo_staged cfg env video mediaType upload tmp w) =
         (videos w)(ID video \<mapsto> video\<lparr>VideoURL := Some (getObjectURL cfg key)\<rparr>))"
proof -
  have t: "videos (os_Remove p (handlerUploadVideo_transcoded cfg env video mediaType tmp p w')) =
             videos w
      \<or> (\<exists>key. videos (os_Remove p (handlerUploadVideo_transcoded cfg env video mediaType tmp p w')) =
         (videos w)(ID video \<mapsto> video\<lparr>VideoURL := Some (getObjectURL cfg key)\<rparr>))"
    if "videos w' = videos w" for p w'
    using transcoded_videos [of cfg env video mediaType tmp p w'] that
    by (simp add: videos_os_Remove)
  show ?thesis
    unfolding handlerUploadVideo_staged_def Let_def
    by (simp add: videos_respondWithError videos_emit t
             split: sum.splits prod.splits option.splits)
qed

lemma handlerUploadVideo_videos:
  "videos (handlerUploadVideo cfg env r w) = videos w
   \<or> (\<exists>key videoID video.
         videos w videoID = Some video
         \<and> videos (handlerUploadVideo cfg env r w) =
             (videos w)(ID video \<mapsto> video\<lparr>VideoURL := Some (getObjectURL cfg key)\<rparr>))"
proof -
  have t: "videos (os_Remove p (handlerUploadVideo_staged cfg env video mediaType upload p
                     (emit e (w0\<lparr>files := d\<rparr>)))) = videos w0
      \<or> (\<exists>key. videos (os_Remove p (handlerUploadVideo_staged cfg env video mediaType upload p
                     (emit e (w0\<lparr>files := d\<rparr>)))) =
         (videos w0)(ID video \<mapsto> video\<lparr>VideoURL := Some (getObjectURL cfg key)\<rparr>))"
    for p w0 video mediaType upload e d
    using staged_videos [of cfg env video mediaType upload p "emit e (w0\<lparr>files := d\<rparr>)"]
    by (simp add: videos_os_Remove videos_emit)
  show ?thesis
    unfolding handlerUploadVideo_def Let_def
    apply (auto simp: videos_respondWithError videos_emit GetVideo_def
                split: sum.splits prod.splits option.splits)
       apply (metis t videos_respondWithError)+
    done
qed

section \<open>The claims\<close>

subsection \<open>The video upload handler\<close>

text \<open>
  Claim C1. After a successful video upload the value written to the \<open>VideoURL\<close> field
  should be the bucket name and the object key joined by a comma. Run on the concrete
  request, with the owner as caller and every step succeeding, the handler answers 200
  and stores the full object URL built by \<open>getObjectURL\<close>, which is not
  \<open>tubely,landscape/abc.mp4\<close>; an object URL never has the comma-joined form, and the
  stored value has no comma, so \<open>dbVideoToSignedVideo\<close> hands it back unsigned whatever the
  signing client is.
\<close>

theorem upload_stores_object_url:
  "events (handlerUploadVideo example_cfg (example_env ''alice'' ''moov'') example_request
             example_world) =
     [TempCreated ''/tmp/tubely-upload_1.mp4'',
      Transcoded ''/tmp/tubely-upload_1.mp4'' ''/tmp/tubely-upload_1.mp4.processing'',
      Classified ''landscape'',
      PutObject ''tubely'' ''landscape/abc.mp4'' ''video/mp4'',
      UpdatedVideo (example_video\<lparr>VideoURL := Some example_url\<rparr>),
      Responded 200 (VideoBody (example_video\<lparr>VideoURL := Some example_url\<rparr>)),
      Removed ''/tmp/tubely-upload_1.mp4.processing'',
      Removed ''/tmp/tubely-upload_1.mp4'']
   \<and> videos (handlerUploadVideo example_cfg (example_env ''alice'' ''moov'') example_request
               example_world) ''v1'' =
       Some (example_video\<lparr>VideoURL := Some example_url\<rparr>)
   \<and> example_url \<noteq> ''tubely,landscape/abc.mp4''
   \<and> getObjectURL cfg key \<noteq> s3Bucket cfg @ '','' @ key
   \<and> dbVideoToSignedVideo s3Client (example_video\<lparr>VideoURL := Some example_url\<rparr>) =
       (example_video\<lparr>VideoURL := Some example_url\<rparr>, None)"
proof -
  have run: "events (handlerUploadVideo example_cfg (example_env ''alice'' ''moov'')
                       example_request example_world) =
     [TempCreated ''/tmp/tubely-upload_1.mp4'',
      Transcoded ''/tmp/tubely-upload_1.mp4'' ''/tmp/tubely-upload_1.mp4.processing'',
      Classified ''landscape'',
      PutObject ''tubely'' ''landscape/abc.mp4'' ''video/mp4'',
      UpdatedVideo (example_video\<lparr>VideoURL := Some example_url\<rparr>),
      Responded 200 (VideoBody (example_video\<lparr>VideoURL := Some example_url\<rparr>)),
      Removed ''/tmp/tubely-upload_1.mp4.processing'',
      Removed ''/tmp/tubely-upload_1.mp4'']"
    by (simp add: handler_defs)
  have stored: "videos (handlerUploadVideo example_cfg (example_env ''alice'' ''moov'')
                          example_request example_world) ''v1'' =
       Some (example_video\<lparr>VideoURL := Some example_url\<rparr>)"
    by (simp add: handler_defs)
  have differs: "example_url \<noteq> ''tubely,landscape/abc.mp4''"
    by (simp add: example_url_def)
  have "length (getObjectURL cfg key) \<noteq> length (s3Bucket cfg @ '','' @ key)"
    by (simp add: getObjectURL_length)
  then have never: "getObjectURL cfg key \<noteq> s3Bucket cfg @ '','' @ key"
    by metis
  have unsigned: "dbVideoToSignedVideo s3Client (example_video\<lparr>VideoURL := Some example_url\<rparr>) =
       (example_video\<lparr>VideoURL := Some example_url\<rparr>, None)"
    by (simp add: dbVideoToSignedVideo_def example_url_def)
  from run stored differs never unsigned show ?thesis
    by (intro conjI)
qed

text \<open>
  Claim C2. A request whose authenticated user is not the owner of the video should get
  an unauthorized error and nothing more. The branch that reports the mismatch has no
  \<open>return\<close>: on the concrete request sent by \<open>bob\<close> for the video of \<open>alice\<close>, the
  handler answers 401 and then stages the upload, transcodes and classifies it, puts the
  object into the store, updates the video record and answers 200.
\<close>

theorem ownership_mismatch_runs_pipeline:
  "UserID example_video \<noteq> ''bob''
   \<and> events (handlerUploadVideo example_cfg (example_env ''bob'' ''moov'') example_request
               example_world) =
     [Responded 401 (ErrorBody ''Not authorized to update video''),
      TempCreated ''/tmp/tubely-upload_1.mp4'',
      Transcoded ''/tmp/tubely-upload_1.mp4'' ''/tmp/tubely-upload_1.mp4.processing'',
      Classified ''landscape'',
      PutObject ''tubely'' ''landscape/abc.mp4'' ''video/mp4'',
      UpdatedVideo (example_video\<lparr>VideoURL := Some example_url\<rparr>),
      Responded 200 (VideoBody (example_video\<lparr>VideoURL := Some example_url\<rparr>)),
      Removed ''/tmp/tubely-upload_1.mp4.processing'',
      Removed ''/tmp/tubely-upload_1.mp4'']
   \<and> objects (handlerUploadVideo example_cfg (example_env ''bob'' ''moov'') example_request
                example_world) (''tubely'', ''landscape/abc.mp4'') =
       Some (Some ''moov'', ''video/mp4'')
   \<and> videos (handlerUploadVideo example_cfg (example_env ''bob'' ''moov'') example_request
               example_world) ''v1'' =
       Some (example_video\<lparr>VideoURL := Some example_url\<rparr>)"
proof (intro conjI)
  show "UserID example_video \<noteq> ''bob''"
    by (simp add: example_video_def)
  show "events (handlerUploadVideo example_cfg (example_env ''bob'' ''moov'') example_request
               example_world) =
     [Responded 401 (ErrorBody ''Not authorized to update video''),
      TempCreated ''/tmp/tubely-upload_1.mp4'',
      Transcoded ''/tmp/tubely-upload_1.mp4'' ''/tmp/tubely-upload_1.mp4.processing'',
      Classified ''landscape'',
      PutObject ''tubely'' ''landscape/abc.mp4'' ''video/mp4'',
      UpdatedVideo (example_video\<lparr>VideoURL := Some example_url\<rparr>),
      Responded 200 (VideoBody (example_video\<lparr>VideoURL := Some example_url\<rparr>)),
      Removed ''/tmp/tubely-upload_1.mp4.processing'',
      Removed ''/tmp/tubely-upload_1.mp4'']"
    by (simp add: handler_defs)
  show "objects (handlerUploadVideo example_cfg (example_env ''bob'' ''moov'') example_request
                example_world) (''tubely'', ''landscape/abc.mp4'') =
       Some (Some ''moov'', ''video/mp4'')"
    by (simp add: handler_defs)
  show "videos (handlerUploadVideo example_cfg (example_env ''bob'' ''moov'') example_request
               example_world) ''v1'' =
       Some (example_video\<lparr>VideoURL := Some example_url\<rparr>)"
    by (simp add: handler_defs)
qed

text \<open>
  Claim C3. Every way out of the upload pipeline should delete the staged file and the
  transcoded file. The deletion of the transcoded file is deferred only after
  \<open>processVideoForFastStart\<close> has returned without error: on the concrete request with a
  transcoder that exits with status zero and writes an empty output file, the handler
  answers 500, deletes the staged file, and leaves the empty \<open>.processing\<close> file on disk;
  so it does with a transcoder that exits with an error after writing part of its output.
\<close>

theorem failed_transcode_output_remains:
  "events (handlerUploadVideo example_cfg (example_env ''alice'' []) example_request
             example_world) =
     [TempCreated ''/tmp/tubely-upload_1.mp4'',
      Transcoded ''/tmp/tubely-upload_1.mp4'' ''/tmp/tubely-upload_1.mp4.processing'',
      Responded 500 (ErrorBody ''Couldn't process video''),
      Removed ''/tmp/tubely-upload_1.mp4'']
   \<and> files (handlerUploadVideo example_cfg (example_env ''alice'' []) example_request
              example_world) ''/tmp/tubely-upload_1.mp4'' = None
   \<and> files (handlerUploadVideo example_cfg (example_env ''alice'' []) example_request
              example_world) ''/tmp/tubely-upload_1.mp4.processing'' = Some []
   \<and> files (handlerUploadVideo example_cfg
              ((example_env ''alice'' ''moov'')
                 \<lparr>ffmpeg := (\<lambda>input out d. ((''Invalid data found'', Some ''exit status 1''),
                                               d(out \<mapsto> ''ftyp'')))\<rparr>)
              example_request example_world) ''/tmp/tubely-upload_1.mp4.processing'' = Some ''ftyp''"
proof (intro conjI)
  show "events (handlerUploadVideo example_cfg (example_env ''alice'' []) example_request
             example_world) =
     [TempCreated ''/tmp/tubely-upload_1.mp4'',
      Transcoded ''/tmp/tubely-upload_1.mp4'' ''/tmp/tubely-upload_1.mp4.processing'',
      Responded 500 (ErrorBody ''Couldn't process video''),
      Removed ''/tmp/tubely-upload_1.mp4'']"
    by (simp add: handler_defs)
  show "files (handlerUploadVideo example_cfg (example_env ''alice'' []) example_request
              example_world) ''/tmp/tubely-upload_1.mp4'' = None"
    by (simp add: handler_defs)
  show "files (handlerUploadVideo example_cfg (example_env ''alice'' []) example_request
              example_world) ''/tmp/tubely-upload_1.mp4.processing'' = Some []"
    by (simp add: handler_defs)
  show "files (handlerUploadVideo example_cfg
              ((example_env ''alice'' ''moov'')
                 \<lparr>ffmpeg := (\<lambda>input out d. ((''Invalid data found'', Some ''exit status 1''),
                                               d(out \<mapsto> ''ftyp'')))\<rparr>)
              example_request example_world) ''/tmp/tubely-upload_1.mp4.processing'' = Some ''ftyp''"
    by (simp add: handler_defs)
qed

subsection \<open>The thumbnail handler\<close>

text \<open>
  Claim C4. The memory budget of the multipart parser should be 10 MiB, that is
  \<open>10 * 2 ^ 20 = 10485760\<close> bytes. The constant is written with a right shift, so its
  value is 0; the left shift would give the 10 MiB of its comment.
\<close>

theorem maxMemory_is_zero:
  "maxMemory = 0
   \<and> maxMemory \<noteq> 10 * 2 ^ 20
   \<and> (10 * 2 ^ 20 :: 64 word) = 10485760
   \<and> (word_of_int (push_bit 20 (10::int)) :: 64 word) = 10485760"
  by (simp add: maxMemory_def)

subsection \<open>Aspect classification\<close>

text \<open>
  Claim C5, as the code has it. The classification compares with the quotient of an
  integer division, not the exact ratio: for dimensions from 0 up to \<open>2 ^ 59\<close>, a pair is
  landscape exactly when \<open>16 * height - 9 * width\<close> lies between 0 and 8, portrait exactly
  when it is not landscape and \<open>16 * width - 9 * height\<close> lies between 0 and 8, and other
  exactly when neither holds. So every pair of exact ratio 16:9 is landscape, and so is
  every pair that misses the ratio by a remainder below 9.
\<close>

theorem aspect_quotient_tolerance:
  fixes width height :: go_int
  assumes "0 \<le> sint width" "sint width < 2 ^ 59" "0 \<le> sint height" "sint height < 2 ^ 59"
  shows "(calculateAspectRatio width height = ''landscape'' \<longleftrightarrow>
            0 \<le> 16 * sint height - 9 * sint width \<and> 16 * sint height - 9 * sint width < 9)
       \<and> (calculateAspectRatio width height = ''portrait'' \<longleftrightarrow>
            \<not> (0 \<le> 16 * sint height - 9 * sint width \<and> 16 * sint height - 9 * sint width < 9)
            \<and> 0 \<le> 16 * sint width - 9 * sint height \<and> 16 * sint width - 9 * sint height < 9)
       \<and> (calculateAspectRatio width height = ''other'' \<longleftrightarrow>
            \<not> (0 \<le> 16 * sint height - 9 * sint width \<and> 16 * sint height - 9 * sint width < 9)
            \<and> \<not> (0 \<le> 16 * sint width - 9 * sint height \<and> 16 * sint width - 9 * sint height < 9))"
  using assms by (simp add: calculateAspectRatio_def eq_go_quo_iff eq_div_9_iff)

text \<open>The theorem at 1920 by 1080, of exact ratio 16:9, and at 853 by 480, which is not.\<close>

theorem aspect_quotient_tolerance_witness:
  "calculateAspectRatio 1920 1080 = ''landscape''
   \<and> calculateAspectRatio 853 480 = ''landscape''
   \<and> calculateAspectRatio 480 853 = ''portrait''
   \<and> calculateAspectRatio 1366 768 = ''other''"
  using aspect_quotient_tolerance [of 1920 1080] aspect_quotient_tolerance [of 853 480]
    aspect_quotient_tolerance [of 480 853] aspect_quotient_tolerance [of 1366 768]
  by simp

text \<open>
  Claim C5 as stated fails: 853 by 480 is not of exact ratio 16:9, since
  \<open>9 * 853 = 7677\<close> and \<open>16 * 480 = 7680\<close>, and it is classified landscape.
\<close>

theorem aspect_exact_ratio_counterexample:
  "9 * sint (853 :: go_int) \<noteq> 16 * sint (480 :: go_int)
   \<and> calculateAspectRatio 853 480 = ''landscape''"
  by (simp add: calculateAspectRatio_def go_quo_def signed_divide_int_def)

text \<open>
  Claim C6. \<open>calculateAspectRatio\<close> returns landscape for every pair with
  \<open>width = 16 * height / 9\<close> under integer division, portrait for every remaining pair
  with \<open>height = 16 * width / 9\<close>, and other for all other pairs; 1920 by 1080 is
  landscape, 1080 by 1920 is portrait, and 1920 by 1081 is other. The dimensions of a
  video are not negative, and for dimensions from 0 up to \<open>2 ^ 59\<close>, where \<open>16 * height\<close>
  does not wrap, the division of the code is the division that rounds down. On the whole
  range from \<open>- 2 ^ 59\<close> the same holds with the quotient truncated towards zero, which
  is what the division of the code computes.
\<close>

theorem calculateAspectRatio_quotient:
  fixes width height :: go_int
  shows "(0 \<le> sint width \<and> sint width < 2 ^ 59 \<and> 0 \<le> sint height \<and> sint height < 2 ^ 59 \<longrightarrow>
            calculateAspectRatio width height =
              (if sint width = 16 * sint height div 9 then ''landscape''
               else if sint height = 16 * sint width div 9 then ''portrait''
               else ''other''))
       \<and> (- (2 ^ 59) \<le> sint width \<and> sint width < 2 ^ 59
            \<and> - (2 ^ 59) \<le> sint height \<and> sint height < 2 ^ 59 \<longrightarrow>
            calculateAspectRatio width height =
              (if sint width = 16 * sint height sdiv 9 then ''landscape''
               else if sint height = 16 * sint width sdiv 9 then ''portrait''
               else ''other''))
       \<and> calculateAspectRatio 1920 1080 = ''landscape''
       \<and> calculateAspectRatio 1080 1920 = ''portrait''
       \<and> calculateAspectRatio 1920 1081 = ''other''"
proof (intro conjI impI)
  assume "0 \<le> sint width \<and> sint width < 2 ^ 59 \<and> 0 \<le> sint height \<and> sint height < 2 ^ 59"
  then show "calculateAspectRatio width height =
      (if sint width = 16 * sint height div 9 then ''landscape''
       else if sint height = 16 * sint width div 9 then ''portrait''
       else ''other'')"
    by (simp add: calculateAspectRatio_def eq_go_quo_iff)
next
  assume "- (2 ^ 59) \<le> sint width \<and> sint width < 2 ^ 59
            \<and> - (2 ^ 59) \<le> sint height \<and> sint height < 2 ^ 59"
  then show "calculateAspectRatio width height =
      (if sint width = 16 * sint height sdiv 9 then ''landscape''
       else if sint height = 16 * sint width sdiv 9 then ''portrait''
       else ''other'')"
    by (simp add: calculateAspectRatio_def eq_go_quo_signed_iff)
next
  show "calculateAspectRatio 1920 1080 = ''landscape''"
    by (simp add: calculateAspectRatio_def go_quo_def signed_divide_int_def)
next
  show "calculateAspectRatio 1080 1920 = ''portrait''"
    by (simp add: calculateAspectRatio_def go_quo_def signed_divide_int_def)
next
  show "calculateAspectRatio 1920 1081 = ''other''"
    by (simp add: calculateAspectRatio_def go_quo_def signed_divide_int_def)
qed

text \<open>The theorem at 1280 by 720, at 720 by 1280 and at 1281 by 720.\<close>

theorem calculateAspectRatio_quotient_witness:
  "calculateAspectRatio 1280 720 = ''landscape'' \<and> calculateAspectRatio 720 1280 = ''portrait''
   \<and> calculateAspectRatio 1281 720 = ''other''"
  using calculateAspectRatio_quotient [of 1280 720]
    calculateAspectRatio_quotient [of 720 1280]
    calculateAspectRatio_quotient [of 1281 720]
  by (simp add: signed_divide_int_def)

subsection \<open>The transcoder\<close>

text \<open>
  Claim C7. \<open>processVideoForFastStart\<close> returns an error exactly when the run of the
  remuxing tool reports an error, or the output file \<open>path.processing\<close> cannot be
  stat'ed on the disk the tool leaves, or that file has size zero; in every other case
  it returns \<open>path.processing\<close>.
\<close>

theorem processVideoForFastStart_error_iff:
  "(let out = path @ ''.processing'';
        run = tool path out d;
        res = fst (processVideoForFastStart tool path d)
    in (isl res \<longleftrightarrow>
          snd (fst run) \<noteq> None \<or> isl (os_Stat (snd run) out) \<or> os_Stat (snd run) out = Inr 0)
       \<and> (\<not> isl res \<longrightarrow> res = Inr out))"
  by (auto simp: processVideoForFastStart_def Let_def
           split: prod.splits option.splits sum.splits)

text \<open>
  The theorem at a tool that writes four bytes, at one that writes an empty file, at one
  that writes nothing, and at one that exits with an error after writing its output.
\<close>

theorem processVideoForFastStart_error_iff_witness:
  "fst (processVideoForFastStart (\<lambda>input out d. (([], None), d(out \<mapsto> ''moov'')))
          ''/tmp/a.mp4'' Map.empty) = Inr ''/tmp/a.mp4.processing''
   \<and> isl (fst (processVideoForFastStart (\<lambda>input out d. (([], None), d(out \<mapsto> [])))
                 ''/tmp/a.mp4'' Map.empty))
   \<and> isl (fst (processVideoForFastStart (\<lambda>input out d. (([], None), d))
                 ''/tmp/a.mp4'' Map.empty))
   \<and> isl (fst (processVideoForFastStart
                 (\<lambda>input out d. ((''moov atom not found'', Some ''exit status 1''),
                                  d(out \<mapsto> ''moov'')))
                 ''/tmp/a.mp4'' Map.empty))"
  using
    processVideoForFastStart_error_iff
      [of "''/tmp/a.mp4''" "\<lambda>input out d. (([], None), d(out \<mapsto> ''moov''))" Map.empty]
    processVideoForFastStart_error_iff
      [of "''/tmp/a.mp4''" "\<lambda>input out d. (([], None), d(out \<mapsto> []))" Map.empty]
    processVideoForFastStart_error_iff
      [of "''/tmp/a.mp4''" "\<lambda>input out d. (([], None), d)" Map.empty]
    processVideoForFastStart_error_iff
      [of "''/tmp/a.mp4''"
          "\<lambda>input out d. ((''moov atom not found'', Some ''exit status 1''), d(out \<mapsto> ''moov''))"
          Map.empty]
  by (simp add: Let_def os_Stat_def)

subsection \<open>Expanding the persisted URL\<close>

text \<open>
  Claim C8. \<open>dbVideoToSignedVideo\<close> returns the video record unchanged, with every field
  as it was, and no error whenever the persisted \<open>VideoURL\<close> is nil or its value has no
  comma, for every signing client.
\<close>

theorem dbVideoToSignedVideo_no_pair_unchanged:
  "VideoURL video = None \<or> (\<exists>url. VideoURL video = Some url \<and> CHR '','' \<notin> set url)
   \<Longrightarrow> dbVideoToSignedVideo s3Client video = (video, None)"
  by (auto simp: dbVideoToSignedVideo_def Split_no_sep)

text \<open>The theorem at a record without a URL and at one that holds a plain object URL.\<close>

theorem dbVideoToSignedVideo_no_pair_unchanged_witness:
  "dbVideoToSignedVideo (\<lambda>bucket key expires. Inr (''signed:'' @ bucket @ ''/'' @ key))
     example_video = (example_video, None)
   \<and> dbVideoToSignedVideo (\<lambda>bucket key expires. Inr (''signed:'' @ bucket @ ''/'' @ key))
       (example_video\<lparr>VideoURL := Some ''https://tubely.s3.amazonaws.com/a.mp4''\<rparr>) =
       (example_video\<lparr>VideoURL := Some ''https://tubely.s3.amazonaws.com/a.mp4''\<rparr>, None)"
  using
    dbVideoToSignedVideo_no_pair_unchanged
      [of example_video "\<lambda>bucket key expires. Inr (''signed:'' @ bucket @ ''/'' @ key)"]
    dbVideoToSignedVideo_no_pair_unchanged
      [of "example_video\<lparr>VideoURL := Some ''https://tubely.s3.amazonaws.com/a.mp4''\<rparr>"
          "\<lambda>bucket key expires. Inr (''signed:'' @ bucket @ ''/'' @ key)"]
  by (simp add: example_video_def)

text \<open>
  Claim C9. For every persisted value with two or more commas, that is
  \<open>bucket,key,rest\<close> with no comma in \<open>bucket\<close> or in \<open>key\<close>, \<open>dbVideoToSignedVideo\<close> signs
  the first segment as the bucket and the second as the key; whatever follows the
  second comma has no effect on the result.
\<close>

theorem dbVideoToSignedVideo_extra_segments_ignored:
  assumes "VideoURL video = Some (bucket @ CHR '','' # key @ CHR '','' # rest)"
    and "CHR '','' \<notin> set bucket" and "CHR '','' \<notin> set key"
  shows "dbVideoToSignedVideo s3Client video =
     (case s3Client bucket key (10 * Minute) of
        Inl err \<Rightarrow> (video, Some (''couldn't create presign URL '' @ err))
      | Inr presignedURL \<Rightarrow> (video\<lparr>VideoURL := Some presignedURL\<rparr>, None))"
  using assms
  by (simp add: dbVideoToSignedVideo_def Split_append_sep generatePresignedURL_def
           split: sum.splits)

text \<open>The theorem at the persisted value \<open>a,b,c\<close>.\<close>

theorem dbVideoToSignedVideo_extra_segments_ignored_witness:
  "dbVideoToSignedVideo (\<lambda>bucket key expires. Inr (''signed:'' @ bucket @ ''/'' @ key))
     (example_video\<lparr>VideoURL := Some ''a,b,c''\<rparr>) =
     (example_video\<lparr>VideoURL := Some ''signed:a/b''\<rparr>, None)"
  using dbVideoToSignedVideo_extra_segments_ignored
      [of "example_video\<lparr>VideoURL := Some ''a,b,c''\<rparr>" "''a''" "''b''" "''c''"
          "\<lambda>bucket key expires. Inr (''signed:'' @ bucket @ ''/'' @ key)"]
  by simp

text \<open>
  Claim C10. If the signing call fails, \<open>dbVideoToSignedVideo\<close> returns the video record
  it was given, with \<open>VideoURL\<close> and every other field as they were, together with the
  error.
\<close>

theorem dbVideoToSignedVideo_sign_error_unchanged:
  assumes "VideoURL video = Some url"
    and "2 \<le> length (Split url CHR '','')"
    and "s3Client (Split url CHR '','' ! 0) (Split url CHR '','' ! 1) (10 * Minute) = Inl err"
  shows "dbVideoToSignedVideo s3Client video =
           (video, Some (''couldn't create presign URL '' @ err))"
  using assms
  by (simp add: dbVideoToSignedVideo_def generatePresignedURL_def Let_def)

text \<open>The theorem at the persisted value \<open>tubely,landscape/abc.mp4\<close> and a client without credentials.\<close>

theorem dbVideoToSignedVideo_sign_error_unchanged_witness:
  "dbVideoToSignedVideo (\<lambda>bucket key expires. Inl ''no credentials'')
     (example_video\<lparr>VideoURL := Some ''tubely,landscape/abc.mp4''\<rparr>) =
     (example_video\<lparr>VideoURL := Some ''tubely,landscape/abc.mp4''\<rparr>,
      Some ''couldn't create presign URL no credentials'')"
  using dbVideoToSignedVideo_sign_error_unchanged
      [of "example_video\<lparr>VideoURL := Some ''tubely,landscape/abc.mp4''\<rparr>"
          "''tubely,landscape/abc.mp4''"
          "\<lambda>bucket key expires. Inl ''no credentials''" "''no credentials''"]
  by simp

end
